theory Spec2Isabelle
  imports Main "HOL-Library.Sublist"
begin

section \<open>The system tray and notification commands of tkMacOSXSysTray.c\<close>

text \<open>
  The file registers two string commands with a Tcl interpreter, \<open>_systray\<close> and
  \<open>_sysnotify\<close>, and forwards their arguments to two Objective-C objects, \<open>tk_item\<close> and
  \<open>notify_item\<close>. The embedding below keeps the names of the file. The globals of the
  file (\<open>tk_item\<close>, \<open>notify_item\<close>, \<open>callbackproc\<close>) and the parts of the interpreter and of
  the notification centre that the file writes are the fields of one record, passed in and
  returned.
\<close>

subsection \<open>C strings and the argument vector\<close>

text \<open>
  A C string is the list of its bytes before the terminating NUL, so \<open>strlen\<close> is the
  length of the list. \<open>strncmp\<close> and \<open>strcmp\<close> compare bytes as \<open>unsigned char\<close>; the C
  standard fixes only the sign of their result, and the model returns \<open>-1\<close>, \<open>0\<close> or \<open>1\<close>.
  Reaching the end of a list is reading its terminator, which is smaller than every byte
  of a string.
\<close>

definition strlen :: "string \<Rightarrow> nat" where
  "strlen s = length s"

text \<open>
  \<open>strlen\<close> returns a \<open>size_t\<close>, of 64 bits on the platforms of this file, and the third
  parameter of \<open>strncmp\<close> is a \<open>size_t\<close>. An \<open>int\<close> has 32 bits: storing a \<open>size_t\<close> in
  an \<open>int\<close> keeps the low 32 bits, read in two's complement, and passing an \<open>int\<close> where a
  \<open>size_t\<close> is expected takes it modulo \<open>2 ^ 64\<close>.
\<close>

definition int_of_size_t :: "nat \<Rightarrow> int" where
  "int_of_size_t n = (let m = int n mod 2 ^ 32 in if m < 2 ^ 31 then m else m - 2 ^ 32)"

definition size_t_of_int :: "int \<Rightarrow> nat" where
  "size_t_of_int i = nat (i mod 2 ^ 64)"

fun strncmp :: "string \<Rightarrow> string \<Rightarrow> nat \<Rightarrow> int" where
  "strncmp s t 0 = 0"
| "strncmp [] [] (Suc n) = 0"
| "strncmp [] (b # t) (Suc n) = - 1"
| "strncmp (a # s) [] (Suc n) = 1"
| "strncmp (a # s) (b # t) (Suc n) =
     (if a = b then strncmp s t n
      else if (of_char a :: nat) < of_char b then - 1 else 1)"

fun strcmp :: "string \<Rightarrow> string \<Rightarrow> int" where
  "strcmp [] [] = 0"
| "strcmp [] (b # t) = - 1"
| "strcmp (a # s) [] = 1"
| "strcmp (a # s) (b # t) =
     (if a = b then strcmp s t
      else if (of_char a :: nat) < of_char b then - 1 else 1)"

text \<open>
  \<open>argv\<close> is the list of the words of the invocation, \<open>argc\<close> its length. Tcl ends the
  vector with a null pointer, \<open>argv[argc] == NULL\<close>; \<open>arg\<close> reads a slot as a pointer,
  \<open>None\<close> being the null pointer (or a slot past the end of the vector).
\<close>

definition arg :: "string list \<Rightarrow> nat \<Rightarrow> string option" where
  "arg argv i = (if i < length argv then Some (argv ! i) else None)"

subsection \<open>The hosting platform\<close>

text \<open>
  What the commands read from outside the file is a parameter: the version number that
  \<open>[NSApp macOSVersion]\<close> answers, the images that \<open>Tk_GetImage\<close> finds for the main window
  of the interpreter (\<open>None\<close> is the \<open>NULL\<close> of a failed lookup) with the text that a failed
  lookup itself leaves as the result of the interpreter, and the byte strings that
  \<open>stringWithUTF8String:\<close> accepts (it answers \<open>nil\<close> for the others). The interpreter is
  taken to have its main window and display. \<open>Tk_FreeImage\<close> gives back the image instance
  that \<open>Tk_GetImage\<close> handed out and writes nothing that the commands read; instances are
  not counted in the state.
\<close>

record Tk_Image =
  img_width :: int
  img_height :: int

datatype NSImage = NSImageFromTkImage Tk_Image int int

type_synonym NSString = string

record host =
  macOSVersion :: int
  Tk_GetImage :: "string \<Rightarrow> Tk_Image option"
  Tk_GetImage_report :: "string \<Rightarrow> string \<Rightarrow> string"
  utf8_valid :: "string \<Rightarrow> bool"

definition Tk_SizeOfImage :: "Tk_Image \<Rightarrow> int \<times> int" where
  "Tk_SizeOfImage tk_image = (img_width tk_image, img_height tk_image)"

definition TkMacOSXGetNSImageFromTkImage :: "Tk_Image \<Rightarrow> int \<Rightarrow> int \<Rightarrow> NSImage" where
  "TkMacOSXGetNSImageFromTkImage tk_image width height = NSImageFromTkImage tk_image width height"

definition stringWithUTF8String :: "host \<Rightarrow> string \<Rightarrow> NSString option" where
  "stringWithUTF8String h s = (if utf8_valid h s then Some s else None)"

subsection \<open>The two adapter objects and the state\<close>

record TkStatusItem =
  icon :: "NSImage option"
  tooltip :: "NSString option"
  button_image :: "NSImage option"
  button_toolTip :: "NSString option"
  visible :: bool
  in_status_bar :: bool

record NSUserNotification =
  title :: "NSString option"
  informativeText :: "NSString option"
  soundName :: "string option"

record TkNotifyItem =
  tk_notification :: NSUserNotification
  header :: "NSString option"
  info :: "NSString option"

record world =
  tk_item :: TkStatusItem
  notify_item :: TkNotifyItem
  callbackproc :: "string option"
  result :: string
  commands :: "string set"
  center_delegate_set :: bool
  delivered :: "NSUserNotification list"

text \<open>The methods of \<open>TkStatusItem\<close>.\<close>

definition TkStatusItem_init :: TkStatusItem where
  "TkStatusItem_init =
     \<lparr>icon = None, tooltip = None, button_image = None, button_toolTip = None,
      visible = True, in_status_bar = True\<rparr>"

definition setImagewithImage :: "NSImage option \<Rightarrow> TkStatusItem \<Rightarrow> TkStatusItem" where
  "setImagewithImage img item = item\<lparr>icon := img, button_image := img\<rparr>"

definition setTextwithString :: "NSString option \<Rightarrow> TkStatusItem \<Rightarrow> TkStatusItem" where
  "setTextwithString str item = item\<lparr>tooltip := str, button_toolTip := str\<rparr>"

text \<open>
  \<open>dealloc\<close> removes the status item from the status bar and nothing else: it does not
  call the \<open>dealloc\<close> of the superclass, so the object and its fields stay.
\<close>

definition TkStatusItem_dealloc :: "TkStatusItem \<Rightarrow> TkStatusItem" where
  "TkStatusItem_dealloc item = item\<lparr>in_status_bar := False\<rparr>"

text \<open>The methods of \<open>TkNotifyItem\<close>.\<close>

definition NSUserNotificationDefaultSoundName :: string where
  "NSUserNotificationDefaultSoundName = ''DefaultSoundName''"

definition TkNotifyItem_init :: TkNotifyItem where
  "TkNotifyItem_init =
     \<lparr>tk_notification = \<lparr>title = None, informativeText = None, soundName = None\<rparr>,
      header = None, info = None\<rparr>"

definition postNotificationWithTitle :: "NSString option \<Rightarrow> NSString option \<Rightarrow> world \<Rightarrow> world" where
  "postNotificationWithTitle ttl detail st =
     (let n0 = notify_item st;
          n1 = n0\<lparr>header := ttl\<rparr>;
          n2 = n1\<lparr>tk_notification := (tk_notification n1)\<lparr>title := header n1\<rparr>\<rparr>;
          n3 = n2\<lparr>info := detail\<rparr>;
          n4 = n3\<lparr>tk_notification := (tk_notification n3)\<lparr>informativeText := info n3\<rparr>\<rparr>;
          n5 = n4\<lparr>tk_notification :=
                 (tk_notification n4)\<lparr>soundName := Some NSUserNotificationDefaultSoundName\<rparr>\<rparr>
      in st\<lparr>notify_item := n5, center_delegate_set := True,
             delivered := delivered st @ [tk_notification n5]\<rparr>)"

subsection \<open>Results of a command\<close>

text \<open>
  A command returns \<open>TCL_OK\<close> or \<open>TCL_ERROR\<close>; the model tags \<open>TCL_ERROR\<close> with the return
  statement it comes from. \<open>Tcl_AppendResult\<close> appends its string arguments to the result
  of the interpreter, up to the first null pointer.
\<close>

datatype error = WrongNumArgs | NoImage | NoTooltip | NoCallback

datatype code = TCL_OK | TCL_ERROR error

datatype outcome = Undefined_behaviour | Return code world

fun append_strings :: "string option list \<Rightarrow> string" where
  "append_strings [] = []"
| "append_strings (None # ps) = []"
| "append_strings (Some s # ps) = s @ append_strings ps"

definition Tcl_AppendResult :: "string option list \<Rightarrow> world \<Rightarrow> world" where
  "Tcl_AppendResult ps st = st\<lparr>result := result st @ append_strings ps\<rparr>"

subsection \<open>MacSystrayCmd\<close>

text \<open>
  The test that guards each branch of the dispatcher:
  \<^verbatim>\<open>(strncmp(argv[1], "create", length) == 0) && (length >= 2)\<close>
  where \<open>length\<close> is declared \<open>int length\<close> and assigned \<open>strlen(argv[1])\<close>: the variable
  holds the length of the word as an \<open>int\<close>, \<open>strncmp\<close> receives it as a \<open>size_t\<close>, and the
  comparison with 2 is one of \<open>int\<close>s.
\<close>

definition subcommand_matches :: "string \<Rightarrow> string \<Rightarrow> bool" where
  "subcommand_matches word name =
     (let len = int_of_size_t (strlen word)
      in strncmp word name (size_t_of_int len) = 0 \<and> len \<ge> 2)"

definition systray_create :: "host \<Rightarrow> string list \<Rightarrow> world \<Rightarrow> outcome" where
  \<open>systray_create h argv st =
     (if length argv < 5 then
        Return (TCL_ERROR WrongNumArgs)
          (Tcl_AppendResult
             [Some '' wrong # args: should be "systray create image ? text? callback?"''] st)
      else
        (case Tk_GetImage h (argv ! 2) of
           None \<Rightarrow>
             Return (TCL_ERROR NoImage)
               (Tcl_AppendResult [Some '' unable to obtain image for systray icon'']
                  (st\<lparr>result := Tk_GetImage_report h (argv ! 2) (result st)\<rparr>))
         | Some tk_image \<Rightarrow>
             (let (width, height) = Tk_SizeOfImage tk_image;
                  st1 = (if width \<noteq> 0 \<and> height \<noteq> 0 then
                           st\<lparr>tk_item :=
                                setImagewithImage
                                  (Some (TkMacOSXGetNSImageFromTkImage tk_image width height))
                                  (tk_item st)\<rparr>
                         else st)
              in (case stringWithUTF8String h (argv ! 3) of
                    None \<Rightarrow>
                      Return (TCL_ERROR NoTooltip)
                        (Tcl_AppendResult [Some '' unable to set tooltip for systray icon''] st1)
                  | Some tip \<Rightarrow>
                      (let st2 = st1\<lparr>tk_item := setTextwithString (Some tip) (tk_item st1)\<rparr>;
                           st3 = st2\<lparr>callbackproc := arg argv 4\<rparr>
                       in if callbackproc st3 = None then
                            Return (TCL_ERROR NoCallback)
                              (Tcl_AppendResult
                                 [Some '' unable to get the callback for systray icon''] st3)
                          else Return TCL_OK st3)))))\<close>

text \<open>
  The three tests of \<open>modify\<close> follow one another in the source (they are not chained by
  \<open>else\<close>); each is a step that either returns from the command (\<open>Inl\<close>) or hands the
  state on to the next test (\<open>Inr\<close>).
\<close>

definition modify_image :: "host \<Rightarrow> string list \<Rightarrow> world \<Rightarrow> outcome + world" where
  "modify_image h argv st =
     (if strcmp (argv ! 2) ''image'' = 0 then
        (case Tk_GetImage h (argv ! 3) of
           None \<Rightarrow>
             Inl (Return (TCL_ERROR NoImage)
                    (Tcl_AppendResult [Some '' unable to obtain image for systray icon'']
                       (st\<lparr>result := Tk_GetImage_report h (argv ! 3) (result st)\<rparr>)))
         | Some tk_image \<Rightarrow>
             (let (width, height) = Tk_SizeOfImage tk_image
              in if width \<noteq> 0 \<and> height \<noteq> 0 then
                   Inr (st\<lparr>tk_item :=
                             setImagewithImage
                               (Some (TkMacOSXGetNSImageFromTkImage tk_image width height))
                               (tk_item st)\<rparr>)
                 else Inr st))
      else Inr st)"

definition modify_text :: "host \<Rightarrow> string list \<Rightarrow> world \<Rightarrow> outcome + world" where
  "modify_text h argv st =
     (if strcmp (argv ! 2) ''text'' = 0 then
        (case stringWithUTF8String h (argv ! 3) of
           None \<Rightarrow>
             Inl (Return (TCL_ERROR NoTooltip)
                    (Tcl_AppendResult [Some '' unable to set tooltip for systray icon''] st))
         | Some tip \<Rightarrow> Inr (st\<lparr>tk_item := setTextwithString (Some tip) (tk_item st)\<rparr>))
      else Inr st)"

definition modify_callback :: "string list \<Rightarrow> world \<Rightarrow> outcome + world" where
  "modify_callback argv st =
     (if strcmp (argv ! 2) ''callback'' = 0 then
        (let st1 = st\<lparr>callbackproc := arg argv 3\<rparr>
         in if callbackproc st1 = None then
              Inl (Return (TCL_ERROR NoCallback)
                     (Tcl_AppendResult
                        [Some '' unable to get the callback for systray icon''] st1))
            else Inr st1)
      else Inr st)"

definition systray_modify :: "host \<Rightarrow> string list \<Rightarrow> world \<Rightarrow> outcome" where
  \<open>systray_modify h argv st =
     (if length argv < 4 then
        Return (TCL_ERROR WrongNumArgs)
          (Tcl_AppendResult
             [Some ''wrong # args: should be "systray modify object item?"''] st)
      else
        (case modify_image h argv st of
           Inl r \<Rightarrow> r
         | Inr st1 \<Rightarrow>
             (case modify_text h argv st1 of
                Inl r \<Rightarrow> r
              | Inr st2 \<Rightarrow>
                  (case modify_callback argv st2 of
                     Inl r \<Rightarrow> r
                   | Inr st3 \<Rightarrow> Return TCL_OK st3))))\<close>

text \<open>
  The dispatcher. Its first statement is \<open>length = strlen(argv[1])\<close>, before any test of
  \<open>argc\<close>: with a null \<open>argv[1]\<close> the behaviour of \<open>strlen\<close> is undefined.
\<close>

definition MacSystrayCmd :: "host \<Rightarrow> string list \<Rightarrow> world \<Rightarrow> outcome" where
  "MacSystrayCmd h argv st =
     (case arg argv 1 of
        None \<Rightarrow> Undefined_behaviour
      | Some word \<Rightarrow>
          if subcommand_matches word ''create'' then systray_create h argv st
          else if subcommand_matches word ''modify'' then systray_modify h argv st
          else if subcommand_matches word ''destroy'' then
            Return TCL_OK (st\<lparr>tk_item := TkStatusItem_dealloc (tk_item st)\<rparr>)
          else Return TCL_OK st)"

subsection \<open>SysNotifyCmd\<close>

definition SysNotifyCmd :: "host \<Rightarrow> string list \<Rightarrow> world \<Rightarrow> code \<times> world" where
  "SysNotifyCmd h argv st =
     (if length argv < 3 then
        (TCL_ERROR WrongNumArgs,
         Tcl_AppendResult
           [Some ''wrong # args,must be:'', arg argv 0, Some '' title  message ''] st)
      else
        (let ttl = stringWithUTF8String h (argv ! 1);
             message = stringWithUTF8String h (argv ! 2)
         in (TCL_OK, postNotificationWithTitle ttl message st)))"

subsection \<open>MacSystrayInit\<close>

definition Tcl_CreateCommand :: "string \<Rightarrow> world \<Rightarrow> world" where
  "Tcl_CreateCommand name st = st\<lparr>commands := insert name (commands st)\<rparr>"

definition MacSystrayInit :: "host \<Rightarrow> world \<Rightarrow> code \<times> world" where
  "MacSystrayInit h st =
     (let st1 = st\<lparr>tk_item := TkStatusItem_init\<rparr>;
          st2 = st1\<lparr>notify_item := TkNotifyItem_init\<rparr>
      in if macOSVersion h < 101000 then
           (TCL_OK,
            Tcl_AppendResult
              [Some ''Statusitem icons not supported on versions of macOS lower than 10.10'']
              st2)
         else
           (TCL_OK, Tcl_CreateCommand ''_sysnotify'' (Tcl_CreateCommand ''_systray'' st2)))"

subsection \<open>A sample platform\<close>

text \<open>
  A concrete platform and interpreter on which the commands can be run: macOS 10.15, two
  images (\<open>icon16\<close> of 16 by 16 pixels, \<open>empty\<close> of no area), and a string conversion that
  accepts exactly the well-formed UTF-8 byte sequences of the Unicode standard.
  \<open>blank_world\<close> is an interpreter with no command and an empty result, \<open>old_world\<close> one
  whose status item already has an image, a tooltip and a callback string.
\<close>

definition continuation_byte :: "nat \<Rightarrow> bool" where
  "continuation_byte b = (128 \<le> b \<and> b \<le> 191)"

fun well_formed_utf8 :: "nat list \<Rightarrow> bool" where
  "well_formed_utf8 [] = True"
| "well_formed_utf8 (b # bs) =
     (if b < 128 then well_formed_utf8 bs
      else if 194 \<le> b \<and> b \<le> 223 then
        (case bs of
           c1 # r \<Rightarrow> continuation_byte c1 \<and> well_formed_utf8 r
         | _ \<Rightarrow> False)
      else if 224 \<le> b \<and> b \<le> 239 then
        (case bs of
           c1 # c2 # r \<Rightarrow>
             (if b = 224 then 160 else 128) \<le> c1 \<and> c1 \<le> (if b = 237 then 159 else 191)
             \<and> continuation_byte c2 \<and> well_formed_utf8 r
         | _ \<Rightarrow> False)
      else if 240 \<le> b \<and> b \<le> 244 then
        (case bs of
           c1 # c2 # c3 # r \<Rightarrow>
             (if b = 240 then 144 else 128) \<le> c1 \<and> c1 \<le> (if b = 244 then 143 else 191)
             \<and> continuation_byte c2 \<and> continuation_byte c3 \<and> well_formed_utf8 r
         | _ \<Rightarrow> False)
      else False)"

definition sample_images :: "string \<Rightarrow> Tk_Image option" where
  "sample_images name =
     (if name = ''icon16'' then Some \<lparr>img_width = 16, img_height = 16\<rparr>
      else if name = ''empty'' then Some \<lparr>img_width = 0, img_height = 0\<rparr>
      else None)"

definition sample_report :: "string \<Rightarrow> string \<Rightarrow> string" where
  \<open>sample_report name res = ''image "'' @ name @ ''" doesn't exist''\<close>

definition sample_host :: host where
  "sample_host =
     \<lparr>macOSVersion = 101500, Tk_GetImage = sample_images,
      Tk_GetImage_report = sample_report,
      utf8_valid = (\<lambda>s. well_formed_utf8 (map of_char s))\<rparr>"

definition blank_world :: world where
  "blank_world =
     \<lparr>tk_item = TkStatusItem_init, notify_item = TkNotifyItem_init, callbackproc = None,
      result = [], commands = {}, center_delegate_set = False, delivered = []\<rparr>"

definition old_world :: world where
  "old_world =
     blank_world
       \<lparr>tk_item := setTextwithString (Some ''old tip'')
                     (setImagewithImage
                        (Some (NSImageFromTkImage \<lparr>img_width = 8, img_height = 8\<rparr> 8 8))
                        TkStatusItem_init),
        callbackproc := Some ''old_callback'',
        commands := {''_systray'', ''_sysnotify''}\<rparr>"


section \<open>Properties\<close>

subsection \<open>String comparison and the dispatcher\<close>

lemma strncmp_prefix: "strncmp w name (length w) = 0 \<longleftrightarrow> prefix w name"
proof (induction w arbitrary: name)
  case Nil
  then show ?case by simp
next
  case (Cons a w)
  then show ?case by (cases name) auto
qed

lemma strcmp_eq: "strcmp a b = 0 \<longleftrightarrow> a = b"
  by (induction a b rule: strcmp.induct) auto

lemma int_of_size_t_small: "n < 2 ^ 31 \<Longrightarrow> int_of_size_t n = int n"
proof -
  assume n: "n < 2 ^ 31"
  then have "int n < 2 ^ 31" by simp
  then show ?thesis by (simp add: int_of_size_t_def Let_def)
qed

lemma int_of_size_t_less: "int_of_size_t n < 2 ^ 31"
proof (cases "int n mod 2 ^ 32 < 2 ^ 31")
  case True
  then show ?thesis by (simp add: int_of_size_t_def Let_def)
next
  case False
  have "int n mod 4294967296 < 4294967296" by (rule pos_mod_bound) simp
  then have "int n mod 4294967296 < 6442450944" by linarith
  then show ?thesis by (simp add: int_of_size_t_def Let_def)
qed

lemma size_t_of_int_small: "0 \<le> i \<Longrightarrow> i < 2 ^ 31 \<Longrightarrow> size_t_of_int i = nat i"
  by (simp add: size_t_of_int_def)

text \<open>
  For a word of fewer than \<open>2 ^ 31\<close> bytes the variable \<open>length\<close> holds the length of
  the word, and the test is the prefix rule.
\<close>

lemma subcommand_matches_iff:
  assumes "length word < 2 ^ 31"
  shows "subcommand_matches word name \<longleftrightarrow> prefix word name \<and> 2 \<le> length word"
proof -
  have "int_of_size_t (length word) = int (length word)"
    using assms by (rule int_of_size_t_small)
  moreover have "size_t_of_int (int (length word)) = length word"
    using assms by (simp add: size_t_of_int_small)
  ultimately show ?thesis
    by (simp add: subcommand_matches_def strlen_def strncmp_prefix)
qed

lemma strncmp_first: "0 < n \<Longrightarrow> strncmp w (b # t) n = 0 \<Longrightarrow> \<exists>s. w = b # s"
  by (cases w; cases n) (auto split: if_splits)

lemma subcommand_matches_first:
  assumes "subcommand_matches word (b # t)"
  shows "\<exists>s. word = b # s"
proof -
  let ?len = "int_of_size_t (strlen word)"
  from assms have c: "strncmp word (b # t) (size_t_of_int ?len) = 0" and l: "2 \<le> ?len"
    by (simp_all add: subcommand_matches_def Let_def)
  have "?len < 2 ^ 31" by (rule int_of_size_t_less)
  with l have "size_t_of_int ?len = nat ?len" by (simp add: size_t_of_int_small)
  with l have "0 < size_t_of_int ?len" by simp
  with c show ?thesis by (rule strncmp_first [rotated])
qed

lemma modify_not_create:
  "subcommand_matches word ''modify'' \<Longrightarrow> \<not> subcommand_matches word ''create''"
  by (auto dest!: subcommand_matches_first)

lemma MacSystrayCmd_create:
  "2 \<le> length argv \<Longrightarrow> subcommand_matches (argv ! 1) ''create'' \<Longrightarrow>
     MacSystrayCmd h argv st = systray_create h argv st"
  by (simp add: MacSystrayCmd_def arg_def)

lemma MacSystrayCmd_modify:
  "2 \<le> length argv \<Longrightarrow> subcommand_matches (argv ! 1) ''modify'' \<Longrightarrow>
     MacSystrayCmd h argv st = systray_modify h argv st"
  by (simp add: MacSystrayCmd_def arg_def modify_not_create)

lemmas modify_defs =
  systray_modify_def modify_image_def modify_text_def modify_callback_def strcmp_eq
  arg_def Tk_SizeOfImage_def TkMacOSXGetNSImageFromTkImage_def stringWithUTF8String_def
  setImagewithImage_def setTextwithString_def Tcl_AppendResult_def

lemmas create_defs =
  systray_create_def arg_def Tk_SizeOfImage_def TkMacOSXGetNSImageFromTkImage_def
  stringWithUTF8String_def setImagewithImage_def setTextwithString_def Tcl_AppendResult_def

lemma matches_create_full: "subcommand_matches ''create'' ''create''"
  by (simp add: subcommand_matches_iff)

lemma matches_modify_full: "subcommand_matches ''modify'' ''modify''"
  by (simp add: subcommand_matches_iff)

text \<open>
  The bytes \<open>C0 80\<close> are Tcl's internal encoding of the character U+0000; they are not
  well-formed UTF-8.
\<close>

lemma sample_rejects_C0_80: "\<not> utf8_valid sample_host [CHR 0xC0, CHR 0x80]"
  by (simp add: sample_host_def)

lemma sample_accepts_tip: "utf8_valid sample_host ''Disk usage''"
  by (simp add: sample_host_def)

subsection \<open>Initialization on an old platform\<close>

text \<open>
  The claim C1 as it is written has the notification command registered after an
  initialization on a platform older than macOS 10.10. On macOS 10.9 (version number
  100900) \<open>MacSystrayInit\<close>, started in an interpreter without commands, returns \<open>TCL_OK\<close>
  and \<open>_sysnotify\<close> is not among the commands of the interpreter.
\<close>

theorem MacSystrayInit_old_macOS_no_sysnotify:
  "macOSVersion (sample_host\<lparr>macOSVersion := 100900\<rparr>) < 101000
   \<and> fst (MacSystrayInit (sample_host\<lparr>macOSVersion := 100900\<rparr>) blank_world) = TCL_OK
   \<and> ''_sysnotify'' \<notin>
       commands (snd (MacSystrayInit (sample_host\<lparr>macOSVersion := 100900\<rparr>) blank_world))"
  by (simp add: MacSystrayInit_def Tcl_AppendResult_def blank_world_def)

text \<open>
  C1, amended. On a platform whose version number is below 101000 (macOS 10.10)
  \<open>MacSystrayInit\<close> creates the two adapter objects, appends the warning to the result of
  the interpreter and returns \<open>TCL_OK\<close>; the return comes before both calls of
  \<open>Tcl_CreateCommand\<close>, so the commands of the interpreter are the ones it had before:
  neither the tray command nor the notification command is registered.
\<close>

theorem MacSystrayInit_old_macOS_registers_no_command:
  assumes "macOSVersion h < 101000"
  shows "MacSystrayInit h st =
     (TCL_OK,
      st\<lparr>tk_item := TkStatusItem_init, notify_item := TkNotifyItem_init,
         result := result st
           @ ''Statusitem icons not supported on versions of macOS lower than 10.10''\<rparr>)
   \<and> commands (snd (MacSystrayInit h st)) = commands st"
  using assms by (simp add: MacSystrayInit_def Tcl_AppendResult_def)

theorem MacSystrayInit_old_macOS_registers_no_command_witness:
  "MacSystrayInit (sample_host\<lparr>macOSVersion := 100900\<rparr>) blank_world =
     (TCL_OK,
      blank_world\<lparr>result :=
        ''Statusitem icons not supported on versions of macOS lower than 10.10''\<rparr>)
   \<and> ''_systray'' \<notin>
       commands (snd (MacSystrayInit (sample_host\<lparr>macOSVersion := 100900\<rparr>) blank_world))
   \<and> ''_sysnotify'' \<notin>
       commands (snd (MacSystrayInit (sample_host\<lparr>macOSVersion := 100900\<rparr>) blank_world))"
proof -
  have v: "macOSVersion (sample_host\<lparr>macOSVersion := 100900\<rparr>) < 101000"
    by simp
  from MacSystrayInit_old_macOS_registers_no_command [OF v, of blank_world]
  show ?thesis by (simp add: blank_world_def)
qed

subsection \<open>Failures inside create and modify\<close>

text \<open>
  C2. A \<open>create\<close> invocation (at least 5 words) whose image name resolves to an image of
  non-zero width and height and whose tooltip argument is refused by the text conversion
  returns \<open>TCL_ERROR\<close> from the tooltip test; in the state it leaves, the status item
  shows the new image, and the tooltip and the stored callback string are the ones from
  before the call.
\<close>

theorem create_tooltip_failure_keeps_new_image:
  assumes "subcommand_matches (argv ! 1) ''create''" and "5 \<le> length argv"
    and "Tk_GetImage h (argv ! 2) = Some tk_image"
    and "img_width tk_image \<noteq> 0" and "img_height tk_image \<noteq> 0"
    and "\<not> utf8_valid h (argv ! 3)"
  shows "\<exists>st'. MacSystrayCmd h argv st = Return (TCL_ERROR NoTooltip) st'
           \<and> icon (tk_item st') =
               Some (NSImageFromTkImage tk_image (img_width tk_image) (img_height tk_image))
           \<and> button_image (tk_item st') = icon (tk_item st')
           \<and> tooltip (tk_item st') = tooltip (tk_item st)
           \<and> button_toolTip (tk_item st') = button_toolTip (tk_item st)
           \<and> callbackproc st' = callbackproc st"
proof -
  from assms(1,2) have "MacSystrayCmd h argv st = systray_create h argv st"
    by (simp add: MacSystrayCmd_create)
  with assms(2-) show ?thesis
    by (simp add: create_defs)
qed

theorem create_tooltip_failure_keeps_new_image_witness:
  "\<exists>st'. MacSystrayCmd sample_host
            [''_systray'', ''create'', ''icon16'', [CHR 0xC0, CHR 0x80], ''puts clicked'']
            old_world = Return (TCL_ERROR NoTooltip) st'
     \<and> icon (tk_item st')
         = Some (NSImageFromTkImage \<lparr>img_width = 16, img_height = 16\<rparr> 16 16)
     \<and> icon (tk_item st') \<noteq> icon (tk_item old_world)
     \<and> tooltip (tk_item st') = Some ''old tip''
     \<and> callbackproc st' = Some ''old_callback''"
proof -
  let ?argv = "[''_systray'', ''create'', ''icon16'', [CHR 0xC0, CHR 0x80], ''puts clicked'']"
  have m: "subcommand_matches (?argv ! 1) ''create''"
    by (simp add: matches_create_full)
  have n: "5 \<le> length ?argv"
    by simp
  have g: "Tk_GetImage sample_host (?argv ! 2) = Some \<lparr>img_width = 16, img_height = 16\<rparr>"
    by (simp add: sample_host_def sample_images_def)
  have w: "img_width \<lparr>img_width = 16, img_height = 16\<rparr> \<noteq> 0"
    and e: "img_height \<lparr>img_width = 16, img_height = 16\<rparr> \<noteq> 0"
    by simp_all
  have u: "\<not> utf8_valid sample_host (?argv ! 3)"
    using sample_rejects_C0_80 by simp
  from create_tooltip_failure_keeps_new_image [OF m n g w e u, of old_world]
  show ?thesis
    by (auto simp: old_world_def blank_world_def setTextwithString_def setImagewithImage_def
        TkStatusItem_init_def)
qed

text \<open>
  C3. A \<open>create\<close> invocation, or a \<open>modify image\<close> invocation, whose image name does not
  resolve returns \<open>TCL_ERROR\<close> from the image test, and the status item (image and
  tooltip) and the stored callback string are the ones from before the call.
\<close>

theorem unresolved_image_changes_nothing:
  assumes "(subcommand_matches (argv ! 1) ''create'' \<and> 5 \<le> length argv
              \<and> Tk_GetImage h (argv ! 2) = None)
         \<or> (subcommand_matches (argv ! 1) ''modify'' \<and> 4 \<le> length argv
              \<and> argv ! 2 = ''image'' \<and> Tk_GetImage h (argv ! 3) = None)"
  shows "\<exists>st'. MacSystrayCmd h argv st = Return (TCL_ERROR NoImage) st'
           \<and> tk_item st' = tk_item st \<and> callbackproc st' = callbackproc st"
  using assms
proof (elim disjE conjE)
  assume a: "subcommand_matches (argv ! 1) ''create''" "5 \<le> length argv"
    "Tk_GetImage h (argv ! 2) = None"
  then have "MacSystrayCmd h argv st = systray_create h argv st"
    by (simp add: MacSystrayCmd_create)
  with a show ?thesis by (simp add: create_defs)
next
  assume a: "subcommand_matches (argv ! 1) ''modify''" "4 \<le> length argv"
    "argv ! 2 = ''image''" "Tk_GetImage h (argv ! 3) = None"
  then have "MacSystrayCmd h argv st = systray_modify h argv st"
    by (simp add: MacSystrayCmd_modify)
  with a show ?thesis by (simp add: modify_defs)
qed

theorem unresolved_image_changes_nothing_witness:
  "(\<exists>st'. MacSystrayCmd sample_host
             [''_systray'', ''create'', ''missing'', ''Disk usage'', ''puts clicked'']
             old_world = Return (TCL_ERROR NoImage) st'
      \<and> tk_item st' = tk_item old_world \<and> callbackproc st' = Some ''old_callback'')
   \<and> (\<exists>st'. MacSystrayCmd sample_host [''_systray'', ''modify'', ''image'', ''missing'']
             old_world = Return (TCL_ERROR NoImage) st'
      \<and> tk_item st' = tk_item old_world \<and> callbackproc st' = Some ''old_callback'')"
proof -
  let ?a = "[''_systray'', ''create'', ''missing'', ''Disk usage'', ''puts clicked'']"
  let ?b = "[''_systray'', ''modify'', ''image'', ''missing'']"
  have g: "Tk_GetImage sample_host ''missing'' = None"
    by (simp add: sample_host_def sample_images_def)
  have ha: "subcommand_matches (?a ! 1) ''create'' \<and> 5 \<le> length ?a
              \<and> Tk_GetImage sample_host (?a ! 2) = None"
    using g by (simp add: matches_create_full)
  have hb: "subcommand_matches (?b ! 1) ''modify'' \<and> 4 \<le> length ?b
              \<and> ?b ! 2 = ''image'' \<and> Tk_GetImage sample_host (?b ! 3) = None"
    using g by (simp add: matches_modify_full)
  have c: "callbackproc old_world = Some ''old_callback''"
    by (simp add: old_world_def)
  from unresolved_image_changes_nothing [OF disjI1 [OF ha], of old_world]
    unresolved_image_changes_nothing [OF disjI2 [OF hb], of old_world] c
  show ?thesis by simp
qed

subsection \<open>Matching of the subcommand word\<close>

text \<open>
  The words \<open>c\<close> and \<open>cr\<close> of the specification: the first does not match \<open>create\<close>, the
  second does.
\<close>

lemma c_and_cr: "\<not> subcommand_matches ''c'' ''create'' \<and> subcommand_matches ''cr'' ''create''"
  by (simp add: subcommand_matches_iff)


subsection \<open>The modify subcommand\<close>

text \<open>
  C5. A \<open>modify\<close> invocation (at least 4 words) that returns \<open>TCL_OK\<close> changes only the
  field its target word names. With target \<open>image\<close> the tooltip and the callback string
  are kept, and an image of non-zero area becomes the image of the status item; with
  target \<open>text\<close> the image and the callback string are kept and the tooltip is the
  argument; with target \<open>callback\<close> the status item is kept whole and the stored callback
  string is the argument.
\<close>

theorem modify_changes_only_its_target:
  assumes "subcommand_matches (argv ! 1) ''modify''" and "4 \<le> length argv"
    and "MacSystrayCmd h argv st = Return TCL_OK st'"
  shows "(argv ! 2 = ''image'' \<longrightarrow>
            tooltip (tk_item st') = tooltip (tk_item st)
            \<and> button_toolTip (tk_item st') = button_toolTip (tk_item st)
            \<and> callbackproc st' = callbackproc st
            \<and> (\<forall>tk_image. Tk_GetImage h (argv ! 3) = Some tk_image
                  \<and> img_width tk_image \<noteq> 0 \<and> img_height tk_image \<noteq> 0 \<longrightarrow>
                  icon (tk_item st') =
                    Some (NSImageFromTkImage tk_image (img_width tk_image) (img_height tk_image))
                  \<and> button_image (tk_item st') = icon (tk_item st')))
       \<and> (argv ! 2 = ''text'' \<longrightarrow>
            icon (tk_item st') = icon (tk_item st)
            \<and> button_image (tk_item st') = button_image (tk_item st)
            \<and> callbackproc st' = callbackproc st
            \<and> tooltip (tk_item st') = Some (argv ! 3)
            \<and> button_toolTip (tk_item st') = Some (argv ! 3))
       \<and> (argv ! 2 = ''callback'' \<longrightarrow>
            tk_item st' = tk_item st \<and> callbackproc st' = Some (argv ! 3))"
proof -
  from assms(1,2) have "MacSystrayCmd h argv st = systray_modify h argv st"
    by (simp add: MacSystrayCmd_modify)
  with assms(3) have m: "systray_modify h argv st = Return TCL_OK st'"
    by simp
  show ?thesis
    using m assms(2) by (auto simp: modify_defs split: option.splits if_splits)
qed

theorem modify_changes_only_its_target_witness:
  "MacSystrayCmd sample_host [''_systray'', ''modify'', ''image'', ''icon16''] old_world
     = Return TCL_OK
         (old_world\<lparr>tk_item := setImagewithImage
            (Some (NSImageFromTkImage \<lparr>img_width = 16, img_height = 16\<rparr> 16 16))
            (tk_item old_world)\<rparr>)
   \<and> tooltip (tk_item (old_world\<lparr>tk_item := setImagewithImage
            (Some (NSImageFromTkImage \<lparr>img_width = 16, img_height = 16\<rparr> 16 16))
            (tk_item old_world)\<rparr>)) = Some ''old tip''
   \<and> MacSystrayCmd sample_host [''_systray'', ''modify'', ''text'', ''Disk usage''] old_world
     = Return TCL_OK
         (old_world\<lparr>tk_item := setTextwithString (Some ''Disk usage'') (tk_item old_world)\<rparr>)
   \<and> icon (tk_item (old_world
         \<lparr>tk_item := setTextwithString (Some ''Disk usage'') (tk_item old_world)\<rparr>))
       = Some (NSImageFromTkImage \<lparr>img_width = 8, img_height = 8\<rparr> 8 8)
   \<and> MacSystrayCmd sample_host [''_systray'', ''modify'', ''callback'', ''puts clicked'']
        old_world
     = Return TCL_OK (old_world\<lparr>callbackproc := Some ''puts clicked''\<rparr>)
   \<and> tk_item (old_world\<lparr>callbackproc := Some ''puts clicked''\<rparr>) = tk_item old_world"
proof -
  let ?i = "[''_systray'', ''modify'', ''image'', ''icon16'']"
  let ?t = "[''_systray'', ''modify'', ''text'', ''Disk usage'']"
  let ?c = "[''_systray'', ''modify'', ''callback'', ''puts clicked'']"
  let ?wi = "old_world\<lparr>tk_item := setImagewithImage
            (Some (NSImageFromTkImage \<lparr>img_width = 16, img_height = 16\<rparr> 16 16))
            (tk_item old_world)\<rparr>"
  let ?wt = "old_world\<lparr>tk_item := setTextwithString (Some ''Disk usage'') (tk_item old_world)\<rparr>"
  let ?wc = "old_world\<lparr>callbackproc := Some ''puts clicked''\<rparr>"
  have mi: "subcommand_matches (?i ! 1) ''modify''" and ni: "4 \<le> length ?i"
    and mt: "subcommand_matches (?t ! 1) ''modify''" and nt: "4 \<le> length ?t"
    and mc: "subcommand_matches (?c ! 1) ''modify''" and nc: "4 \<le> length ?c"
    by (simp_all add: matches_modify_full)
  have ri: "MacSystrayCmd sample_host ?i old_world = Return TCL_OK ?wi"
    by (simp add: MacSystrayCmd_modify [OF _ mi] modify_defs sample_host_def sample_images_def)
  have rt: "MacSystrayCmd sample_host ?t old_world = Return TCL_OK ?wt"
    using sample_accepts_tip by (simp add: MacSystrayCmd_modify [OF _ mt] modify_defs)
  have rc: "MacSystrayCmd sample_host ?c old_world = Return TCL_OK ?wc"
    by (simp add: MacSystrayCmd_modify [OF _ mc] modify_defs)
  have o: "tooltip (tk_item old_world) = Some ''old tip''"
    "icon (tk_item old_world) = Some (NSImageFromTkImage \<lparr>img_width = 8, img_height = 8\<rparr> 8 8)"
    by (simp_all add: old_world_def setTextwithString_def setImagewithImage_def)
  from modify_changes_only_its_target [OF mi ni ri]
    modify_changes_only_its_target [OF mt nt rt]
    modify_changes_only_its_target [OF mc nc rc] ri rt rc o
  show ?thesis by simp
qed

text \<open>
  C7. A \<open>modify\<close> invocation with at least 4 words whose target word is none of \<open>image\<close>,
  \<open>text\<close> and \<open>callback\<close> returns \<open>TCL_OK\<close> and leaves the whole state, the result of the
  interpreter included, as it was.
\<close>

theorem modify_unknown_target_is_noop:
  assumes "subcommand_matches (argv ! 1) ''modify''" and "4 \<le> length argv"
    and "argv ! 2 \<noteq> ''image''" and "argv ! 2 \<noteq> ''text''" and "argv ! 2 \<noteq> ''callback''"
  shows "MacSystrayCmd h argv st = Return TCL_OK st"
proof -
  from assms(1,2) have "MacSystrayCmd h argv st = systray_modify h argv st"
    by (simp add: MacSystrayCmd_modify)
  with assms(2-) show ?thesis by (simp add: modify_defs)
qed

theorem modify_unknown_target_is_noop_witness:
  "MacSystrayCmd sample_host [''_systray'', ''modify'', ''colour'', ''red''] old_world
     = Return TCL_OK old_world
   \<and> MacSystrayCmd sample_host [''_systray'', ''mo'', ''Image'', ''icon16'', ''extra''] old_world
     = Return TCL_OK old_world"
proof -
  let ?a = "[''_systray'', ''modify'', ''colour'', ''red'']"
  let ?b = "[''_systray'', ''mo'', ''Image'', ''icon16'', ''extra'']"
  have ma: "subcommand_matches (?a ! 1) ''modify''" and mb: "subcommand_matches (?b ! 1) ''modify''"
    by (simp_all add: subcommand_matches_iff)
  have na: "4 \<le> length ?a" and nb: "4 \<le> length ?b"
    by simp_all
  have da: "?a ! 2 \<noteq> ''image''" "?a ! 2 \<noteq> ''text''" "?a ! 2 \<noteq> ''callback''"
    and db: "?b ! 2 \<noteq> ''image''" "?b ! 2 \<noteq> ''text''" "?b ! 2 \<noteq> ''callback''"
    by simp_all
  from modify_unknown_target_is_noop [OF ma na da, of sample_host old_world]
    modify_unknown_target_is_noop [OF mb nb db, of sample_host old_world]
  show ?thesis by simp
qed

subsection \<open>The read of the subcommand word\<close>

text \<open>
  C10. The dispatcher takes the length of \<open>argv[1]\<close> before it looks at \<open>argc\<close>. Its
  behaviour is undefined exactly on the invocations of fewer than two words, where
  \<open>argv[1]\<close> is the null pointer that ends the vector; on every invocation that has a
  subcommand word it returns a completion code and a state. In particular an invocation
  of the command name alone does not get the error for a wrong number of arguments.
\<close>

theorem MacSystrayCmd_undefined_iff_no_subcommand:
  "MacSystrayCmd h argv st = Undefined_behaviour \<longleftrightarrow> length argv < 2"
  by (auto simp: MacSystrayCmd_def modify_defs create_defs Let_def
      split: option.splits if_splits sum.splits prod.splits)

theorem MacSystrayCmd_undefined_iff_no_subcommand_witness:
  "MacSystrayCmd sample_host [''_systray''] old_world = Undefined_behaviour
   \<and> MacSystrayCmd sample_host [''_systray'', ''create''] old_world \<noteq> Undefined_behaviour
   \<and> MacSystrayCmd sample_host [''_systray'', ''destroy''] old_world \<noteq> Undefined_behaviour"
  using MacSystrayCmd_undefined_iff_no_subcommand [of sample_host "[''_systray'']" old_world]
    MacSystrayCmd_undefined_iff_no_subcommand [of sample_host "[''_systray'', ''create'']" old_world]
    MacSystrayCmd_undefined_iff_no_subcommand [of sample_host "[''_systray'', ''destroy'']" old_world]
  by simp

subsection \<open>Images of no area\<close>

text \<open>
  The claim C6 as it is written promises normal completion for every \<open>create\<close> invocation
  whose image has no area. On the sample platform the image \<open>empty\<close> has width and height
  0, and a \<open>create\<close> with it and with a tooltip argument that the text conversion
  refuses returns \<open>TCL_ERROR\<close>.
\<close>

theorem create_zero_area_image_then_tooltip_error:
  "subcommand_matches ''create'' ''create''
   \<and> Tk_GetImage sample_host ''empty'' = Some \<lparr>img_width = 0, img_height = 0\<rparr>
   \<and> MacSystrayCmd sample_host
       [''_systray'', ''create'', ''empty'', [CHR 0xC0, CHR 0x80], ''puts clicked''] old_world
     = Return (TCL_ERROR NoTooltip)
         (old_world\<lparr>result := '' unable to set tooltip for systray icon''\<rparr>)"
  by (simp add: MacSystrayCmd_def create_defs matches_create_full
      sample_host_def sample_images_def old_world_def blank_world_def)

text \<open>
  C6, amended. When the image argument of a \<open>create\<close> or \<open>modify image\<close> invocation
  resolves to an image of width 0 or height 0, the image of the status item is not
  touched and the image step raises no error. \<open>modify image\<close> returns \<open>TCL_OK\<close> and leaves
  the whole state as it was. \<open>create\<close> goes on with its remaining steps: it returns
  \<open>TCL_OK\<close>, with the tooltip and the callback string set, when its tooltip argument
  converts to native text, and the tooltip error when it does not.
\<close>

theorem zero_area_image_is_skipped:
  assumes "Tk_GetImage h name = Some tk_image"
    and "img_width tk_image = 0 \<or> img_height tk_image = 0"
  shows "(subcommand_matches (argv ! 1) ''create'' \<and> 5 \<le> length argv \<and> argv ! 2 = name \<longrightarrow>
            (\<exists>c st'. MacSystrayCmd h argv st = Return c st'
               \<and> icon (tk_item st') = icon (tk_item st)
               \<and> button_image (tk_item st') = button_image (tk_item st)
               \<and> (utf8_valid h (argv ! 3) \<longrightarrow>
                    c = TCL_OK \<and> tooltip (tk_item st') = Some (argv ! 3)
                    \<and> callbackproc st' = Some (argv ! 4))
               \<and> (\<not> utf8_valid h (argv ! 3) \<longrightarrow> c = TCL_ERROR NoTooltip)))
       \<and> (subcommand_matches (argv ! 1) ''modify'' \<and> 4 \<le> length argv
            \<and> argv ! 2 = ''image'' \<and> argv ! 3 = name \<longrightarrow>
            MacSystrayCmd h argv st = Return TCL_OK st)"
proof (intro conjI impI)
  assume a: "subcommand_matches (argv ! 1) ''create'' \<and> 5 \<le> length argv \<and> argv ! 2 = name"
  then have "MacSystrayCmd h argv st = systray_create h argv st"
    by (simp add: MacSystrayCmd_create)
  with a assms show "\<exists>c st'. MacSystrayCmd h argv st = Return c st'
               \<and> icon (tk_item st') = icon (tk_item st)
               \<and> button_image (tk_item st') = button_image (tk_item st)
               \<and> (utf8_valid h (argv ! 3) \<longrightarrow>
                    c = TCL_OK \<and> tooltip (tk_item st') = Some (argv ! 3)
                    \<and> callbackproc st' = Some (argv ! 4))
               \<and> (\<not> utf8_valid h (argv ! 3) \<longrightarrow> c = TCL_ERROR NoTooltip)"
    by (auto simp: create_defs)
next
  assume a: "subcommand_matches (argv ! 1) ''modify'' \<and> 4 \<le> length argv
            \<and> argv ! 2 = ''image'' \<and> argv ! 3 = name"
  then have "MacSystrayCmd h argv st = systray_modify h argv st"
    by (simp add: MacSystrayCmd_modify)
  with a assms show "MacSystrayCmd h argv st = Return TCL_OK st"
    by (auto simp: modify_defs)
qed

theorem zero_area_image_is_skipped_witness:
  "MacSystrayCmd sample_host [''_systray'', ''modify'', ''image'', ''empty''] old_world
     = Return TCL_OK old_world
   \<and> (\<exists>st'. MacSystrayCmd sample_host
               [''_systray'', ''create'', ''empty'', ''Disk usage'', ''puts clicked''] old_world
             = Return TCL_OK st'
        \<and> icon (tk_item st') = Some (NSImageFromTkImage \<lparr>img_width = 8, img_height = 8\<rparr> 8 8)
        \<and> tooltip (tk_item st') = Some ''Disk usage''
        \<and> callbackproc st' = Some ''puts clicked'')
   \<and> (\<exists>st'. MacSystrayCmd sample_host
               [''_systray'', ''create'', ''empty'', [CHR 0xC0, CHR 0x80], ''puts clicked'']
               old_world
             = Return (TCL_ERROR NoTooltip) st'
        \<and> icon (tk_item st') = Some (NSImageFromTkImage \<lparr>img_width = 8, img_height = 8\<rparr> 8 8))"
proof -
  let ?m = "[''_systray'', ''modify'', ''image'', ''empty'']"
  let ?c = "[''_systray'', ''create'', ''empty'', ''Disk usage'', ''puts clicked'']"
  let ?e = "[''_systray'', ''create'', ''empty'', [CHR 0xC0, CHR 0x80], ''puts clicked'']"
  have g: "Tk_GetImage sample_host ''empty'' = Some \<lparr>img_width = 0, img_height = 0\<rparr>"
    by (simp add: sample_host_def sample_images_def)
  have z: "img_width \<lparr>img_width = 0, img_height = 0\<rparr> = 0
             \<or> img_height \<lparr>img_width = 0, img_height = 0\<rparr> = 0"
    by simp
  have hm: "subcommand_matches (?m ! 1) ''modify'' \<and> 4 \<le> length ?m
              \<and> ?m ! 2 = ''image'' \<and> ?m ! 3 = ''empty''"
    by (simp add: matches_modify_full)
  have hc: "subcommand_matches (?c ! 1) ''create'' \<and> 5 \<le> length ?c \<and> ?c ! 2 = ''empty''"
    by (simp add: matches_create_full)
  have u: "utf8_valid sample_host (?c ! 3)"
    using sample_accepts_tip by simp
  have o: "icon (tk_item old_world)
             = Some (NSImageFromTkImage \<lparr>img_width = 8, img_height = 8\<rparr> 8 8)"
    by (simp add: old_world_def setTextwithString_def setImagewithImage_def)
  from zero_area_image_is_skipped [OF g z, of ?m old_world] hm
  have 1: "MacSystrayCmd sample_host ?m old_world = Return TCL_OK old_world"
    by blast
  from zero_area_image_is_skipped [OF g z, of ?c old_world] hc u o
  have 2: "\<exists>st'. MacSystrayCmd sample_host ?c old_world = Return TCL_OK st'
        \<and> icon (tk_item st') = Some (NSImageFromTkImage \<lparr>img_width = 8, img_height = 8\<rparr> 8 8)
        \<and> tooltip (tk_item st') = Some ''Disk usage''
        \<and> callbackproc st' = Some ''puts clicked''"
    by auto
  have he: "subcommand_matches (?e ! 1) ''create'' \<and> 5 \<le> length ?e \<and> ?e ! 2 = ''empty''"
    by (simp add: matches_create_full)
  have nu: "\<not> utf8_valid sample_host (?e ! 3)"
    using sample_rejects_C0_80 by simp
  from zero_area_image_is_skipped [OF g z, of ?e old_world] he nu o
  have 3: "\<exists>st'. MacSystrayCmd sample_host ?e old_world = Return (TCL_ERROR NoTooltip) st'
        \<and> icon (tk_item st') = Some (NSImageFromTkImage \<lparr>img_width = 8, img_height = 8\<rparr> 8 8)"
    by auto
  from 1 2 3 show ?thesis by blast
qed

subsection \<open>The notification command\<close>

text \<open>
  What \<open>SysNotifyCmd\<close> does. With the command name, a title and a message it returns
  \<open>TCL_OK\<close>, delivers the descriptor, and leaves in the descriptor (and in the \<open>header\<close> and
  \<open>info\<close> fields of the adapter) what \<open>stringWithUTF8String:\<close> answers for the title and
  for the message: the title and the message themselves when they convert to native
  text. With fewer than two arguments after the command name it returns \<open>TCL_ERROR\<close> and
  appends to the result of the interpreter the usage message \<open>wrong # args,must be:\<close>,
  the command name, \<open> title  message \<close>.
\<close>

lemma SysNotifyCmd_posts_converted_text:
  "(\<exists>st'. SysNotifyCmd h [cmd, ttl, msg] st = (TCL_OK, st')
      \<and> title (tk_notification (notify_item st'))
          = (if utf8_valid h ttl then Some ttl else None)
      \<and> informativeText (tk_notification (notify_item st'))
          = (if utf8_valid h msg then Some msg else None)
      \<and> header (notify_item st') = title (tk_notification (notify_item st'))
      \<and> info (notify_item st') = informativeText (tk_notification (notify_item st'))
      \<and> delivered st' = delivered st @ [tk_notification (notify_item st')])
   \<and> (length args < 2 \<longrightarrow>
        SysNotifyCmd h (cmd # args) st =
          (TCL_ERROR WrongNumArgs,
           st\<lparr>result := result st @ ''wrong # args,must be:'' @ cmd @ '' title  message ''\<rparr>))"
  by (simp add: SysNotifyCmd_def postNotificationWithTitle_def stringWithUTF8String_def
      Tcl_AppendResult_def arg_def Let_def)

lemma SysNotifyCmd_Build:
  "(\<exists>st'. SysNotifyCmd sample_host [''_sysnotify'', ''Build'', ''Completed successfully'']
             blank_world = (TCL_OK, st')
      \<and> title (tk_notification (notify_item st')) = Some ''Build''
      \<and> informativeText (tk_notification (notify_item st')) = Some ''Completed successfully'')
   \<and> SysNotifyCmd sample_host [''_sysnotify'', ''Build''] blank_world
     = (TCL_ERROR WrongNumArgs,
        blank_world\<lparr>result := ''wrong # args,must be:_sysnotify title  message ''\<rparr>)"
proof -
  have v: "utf8_valid sample_host ''Build''" "utf8_valid sample_host ''Completed successfully''"
    by (simp_all add: sample_host_def)
  have r: "result blank_world = []"
    by (simp add: blank_world_def)
  from SysNotifyCmd_posts_converted_text
    [of sample_host "''_sysnotify''" "''Build''" "''Completed successfully''" blank_world
      "[''Build'']"] v r
  show ?thesis by auto
qed

text \<open>
  C8. The claim has the descriptor hold exactly the title and the message of every
  invocation with two arguments. \<open>SysNotifyCmd\<close> does not test the answer of
  \<open>stringWithUTF8String:\<close>, as \<open>MacSystrayCmd\<close> does for its tooltip, where \<open>nil\<close> is the
  error \<open>unable to set tooltip for systray icon\<close>. On the sample platform, invoked with
  a title that the conversion refuses and the message \<open>Completed\<close>, it returns \<open>TCL_OK\<close>
  and delivers a descriptor whose title is \<open>nil\<close>: the descriptor does not hold the title
  of the invocation, and no error reports it.
\<close>

theorem SysNotifyCmd_refused_title_is_nil:
  "stringWithUTF8String sample_host [CHR 0xC0, CHR 0x80] = None
   \<and> SysNotifyCmd sample_host [''_sysnotify'', [CHR 0xC0, CHR 0x80], ''Completed'']
       blank_world
     = (TCL_OK,
        blank_world\<lparr>notify_item :=
            \<lparr>tk_notification =
               \<lparr>title = None, informativeText = Some ''Completed'',
                soundName = Some NSUserNotificationDefaultSoundName\<rparr>,
             header = None, info = Some ''Completed''\<rparr>,
          center_delegate_set := True,
          delivered :=
            [\<lparr>title = None, informativeText = Some ''Completed'',
              soundName = Some NSUserNotificationDefaultSoundName\<rparr>]\<rparr>)
   \<and> title (tk_notification (notify_item
        (snd (SysNotifyCmd sample_host [''_sysnotify'', [CHR 0xC0, CHR 0x80], ''Completed'']
                blank_world)))) \<noteq> Some [CHR 0xC0, CHR 0x80]"
  by (simp add: SysNotifyCmd_def postNotificationWithTitle_def stringWithUTF8String_def
      Let_def sample_host_def blank_world_def TkNotifyItem_init_def)

subsection \<open>The callback string\<close>

text \<open>
  The claim C9 as it is written promises that after every \<open>create\<close> invocation of at
  least 5 words the stored callback string is the argument. On the sample platform a
  \<open>create\<close> of 5 words whose image name does not resolve returns from the image test, and
  the stored callback string is the one from before the call.
\<close>

theorem create_image_error_keeps_old_callback:
  "subcommand_matches ''create'' ''create''
   \<and> MacSystrayCmd sample_host
       [''_systray'', ''create'', ''missing'', ''Disk usage'', ''puts clicked''] old_world
     = Return (TCL_ERROR NoImage)
         (old_world\<lparr>result := sample_report ''missing'' []
                       @ '' unable to obtain image for systray icon''\<rparr>)
   \<and> callbackproc
       (old_world\<lparr>result := sample_report ''missing'' []
                     @ '' unable to obtain image for systray icon''\<rparr>) = Some ''old_callback''
   \<and> Some ''old_callback'' \<noteq> Some ''puts clicked''"
  by (simp add: MacSystrayCmd_def create_defs matches_create_full
      sample_host_def sample_images_def old_world_def blank_world_def)

text \<open>
  C9, amended. The callback argument that the tray command reads is never a null
  pointer: no invocation returns through the branch of the message \<open>unable to get the
  callback for systray icon\<close>. A \<open>modify callback\<close> invocation of at least 4 words
  returns \<open>TCL_OK\<close> with the stored callback string equal to its argument. A \<open>create\<close>
  invocation of at least 5 words whose image name resolves and whose tooltip converts to
  native text returns \<open>TCL_OK\<close> with the stored callback string equal to its callback
  argument; one that returns from the image error or from the tooltip error leaves the
  stored callback string as it was before the call.
\<close>

theorem callback_error_unreachable:
  "(\<forall>st'. MacSystrayCmd h argv st \<noteq> Return (TCL_ERROR NoCallback) st')
   \<and> (subcommand_matches (argv ! 1) ''modify'' \<and> 4 \<le> length argv
        \<and> argv ! 2 = ''callback'' \<longrightarrow>
        (\<exists>st'. MacSystrayCmd h argv st = Return TCL_OK st'
           \<and> callbackproc st' = Some (argv ! 3)))
   \<and> (subcommand_matches (argv ! 1) ''create'' \<and> 5 \<le> length argv
        \<and> Tk_GetImage h (argv ! 2) \<noteq> None \<and> utf8_valid h (argv ! 3) \<longrightarrow>
        (\<exists>st'. MacSystrayCmd h argv st = Return TCL_OK st'
           \<and> callbackproc st' = Some (argv ! 4)))
   \<and> (subcommand_matches (argv ! 1) ''create'' \<and> 5 \<le> length argv
        \<and> Tk_GetImage h (argv ! 2) = None \<longrightarrow>
        (\<exists>st'. MacSystrayCmd h argv st = Return (TCL_ERROR NoImage) st'
           \<and> callbackproc st' = callbackproc st))
   \<and> (subcommand_matches (argv ! 1) ''create'' \<and> 5 \<le> length argv
        \<and> Tk_GetImage h (argv ! 2) \<noteq> None \<and> \<not> utf8_valid h (argv ! 3) \<longrightarrow>
        (\<exists>st'. MacSystrayCmd h argv st = Return (TCL_ERROR NoTooltip) st'
           \<and> callbackproc st' = callbackproc st))"
proof (intro conjI impI allI)
  fix st'
  show "MacSystrayCmd h argv st \<noteq> Return (TCL_ERROR NoCallback) st'"
    by (auto simp: MacSystrayCmd_def modify_defs create_defs Let_def
        split: option.splits if_splits sum.splits prod.splits)
next
  assume a: "subcommand_matches (argv ! 1) ''modify'' \<and> 4 \<le> length argv
        \<and> argv ! 2 = ''callback''"
  then have "MacSystrayCmd h argv st = systray_modify h argv st"
    by (simp add: MacSystrayCmd_modify)
  with a show "\<exists>st'. MacSystrayCmd h argv st = Return TCL_OK st'
           \<and> callbackproc st' = Some (argv ! 3)"
    by (auto simp: modify_defs)
next
  assume a: "subcommand_matches (argv ! 1) ''create'' \<and> 5 \<le> length argv
        \<and> Tk_GetImage h (argv ! 2) \<noteq> None \<and> utf8_valid h (argv ! 3)"
  then have "MacSystrayCmd h argv st = systray_create h argv st"
    by (simp add: MacSystrayCmd_create)
  with a show "\<exists>st'. MacSystrayCmd h argv st = Return TCL_OK st'
           \<and> callbackproc st' = Some (argv ! 4)"
    by (auto simp: create_defs)
next
  assume a: "subcommand_matches (argv ! 1) ''create'' \<and> 5 \<le> length argv
        \<and> Tk_GetImage h (argv ! 2) = None"
  then have "MacSystrayCmd h argv st = systray_create h argv st"
    by (simp add: MacSystrayCmd_create)
  with a show "\<exists>st'. MacSystrayCmd h argv st = Return (TCL_ERROR NoImage) st'
           \<and> callbackproc st' = callbackproc st"
    by (auto simp: create_defs)
next
  assume a: "subcommand_matches (argv ! 1) ''create'' \<and> 5 \<le> length argv
        \<and> Tk_GetImage h (argv ! 2) \<noteq> None \<and> \<not> utf8_valid h (argv ! 3)"
  then have "MacSystrayCmd h argv st = systray_create h argv st"
    by (simp add: MacSystrayCmd_create)
  with a show "\<exists>st'. MacSystrayCmd h argv st = Return (TCL_ERROR NoTooltip) st'
           \<and> callbackproc st' = callbackproc st"
    by (auto simp: create_defs split: prod.splits)
qed

theorem callback_error_unreachable_witness:
  "(\<exists>st'. MacSystrayCmd sample_host
             [''_systray'', ''create'', ''icon16'', ''Disk usage'', ''puts clicked''] old_world
           = Return TCL_OK st' \<and> callbackproc st' = Some ''puts clicked'')
   \<and> (\<exists>st'. MacSystrayCmd sample_host [''_systray'', ''modify'', ''callback'', ''puts again'']
             old_world
           = Return TCL_OK st' \<and> callbackproc st' = Some ''puts again'')
   \<and> (\<exists>st'. MacSystrayCmd sample_host
             [''_systray'', ''create'', ''missing'', ''Disk usage'', ''puts clicked''] old_world
           = Return (TCL_ERROR NoImage) st' \<and> callbackproc st' = Some ''old_callback'')
   \<and> (\<exists>st'. MacSystrayCmd sample_host
             [''_systray'', ''create'', ''empty'', [CHR 0xC0, CHR 0x80], ''puts clicked'']
             old_world
           = Return (TCL_ERROR NoTooltip) st' \<and> callbackproc st' = Some ''old_callback'')"
proof -
  let ?c = "[''_systray'', ''create'', ''icon16'', ''Disk usage'', ''puts clicked'']"
  let ?m = "[''_systray'', ''modify'', ''callback'', ''puts again'']"
  let ?i = "[''_systray'', ''create'', ''missing'', ''Disk usage'', ''puts clicked'']"
  let ?t = "[''_systray'', ''create'', ''empty'', [CHR 0xC0, CHR 0x80], ''puts clicked'']"
  have o: "callbackproc old_world = Some ''old_callback''"
    by (simp add: old_world_def)
  have hc: "subcommand_matches (?c ! 1) ''create'' \<and> 5 \<le> length ?c
        \<and> Tk_GetImage sample_host (?c ! 2) \<noteq> None \<and> utf8_valid sample_host (?c ! 3)"
    using sample_accepts_tip
    by (simp add: matches_create_full sample_host_def sample_images_def)
  have hm: "subcommand_matches (?m ! 1) ''modify'' \<and> 4 \<le> length ?m \<and> ?m ! 2 = ''callback''"
    by (simp add: matches_modify_full)
  have hi: "subcommand_matches (?i ! 1) ''create'' \<and> 5 \<le> length ?i
        \<and> Tk_GetImage sample_host (?i ! 2) = None"
    by (simp add: matches_create_full sample_host_def sample_images_def)
  have ht: "subcommand_matches (?t ! 1) ''create'' \<and> 5 \<le> length ?t
        \<and> Tk_GetImage sample_host (?t ! 2) \<noteq> None \<and> \<not> utf8_valid sample_host (?t ! 3)"
    using sample_rejects_C0_80
    by (simp add: matches_create_full sample_host_def sample_images_def)
  from callback_error_unreachable [of sample_host ?c old_world] hc
  have 1: "\<exists>st'. MacSystrayCmd sample_host ?c old_world = Return TCL_OK st'
             \<and> callbackproc st' = Some (?c ! 4)"
    by blast
  from callback_error_unreachable [of sample_host ?m old_world] hm
  have 2: "\<exists>st'. MacSystrayCmd sample_host ?m old_world = Return TCL_OK st'
             \<and> callbackproc st' = Some (?m ! 3)"
    by blast
  from callback_error_unreachable [of sample_host ?i old_world] hi
  have 3: "\<exists>st'. MacSystrayCmd sample_host ?i old_world = Return (TCL_ERROR NoImage) st'
             \<and> callbackproc st' = callbackproc old_world"
    by blast
  from callback_error_unreachable [of sample_host ?t old_world] ht
  have 4: "\<exists>st'. MacSystrayCmd sample_host ?t old_world = Return (TCL_ERROR NoTooltip) st'
             \<and> callbackproc st' = callbackproc old_world"
    by blast
  from 1 2 3 4 o show ?thesis by simp
qed

end
